theory Spec2Isabelle
  imports Complex_Main
begin

section \<open>Data model\<close>

text \<open>
  The debiasers work on one-dimensional numpy arrays of floats. An array is a list of
  reals: the arithmetic is exact, rounding is not followed. Where numpy raises, the
  model returns \<open>Inl\<close> of the exception.

  A float division by zero does not raise in numpy: it warns and carries \<open>inf\<close> or
  \<open>nan\<close> on. The reals have neither, so the model stops at the division and returns
  \<open>Inl DivideByZero\<close>: that outcome reads "a division by zero was executed, and
  numpy goes on with \<open>inf\<close> or \<open>nan\<close> in the place of a number".
\<close>

type_synonym array = "real list"

datatype error = TypeError | ValueError | IndexError | AttributeError | DivideByZero

datatype warning = UserWarning

text \<open>
  The injected statistical model (a scipy distribution or a \<open>StatisticalModel\<close>):
  \<open>fit\<close> returns the parameters, which the debiasers only pass on to \<open>cdf\<close> and
  \<open>ppf\<close>. The three operations take and return whole arrays, as in the source.
\<close>

record 'p model =
  fit :: "array \<Rightarrow> 'p"
  cdf :: "array \<Rightarrow> 'p \<Rightarrow> array"
  ppf :: "array \<Rightarrow> 'p \<Rightarrow> array"

text \<open>A model keeps the shape of the array it is evaluated on.\<close>

definition shape_preserving :: "'p model \<Rightarrow> bool" where
  "shape_preserving m \<longleftrightarrow>
     (\<forall>xs p. length (cdf m xs p) = length xs) \<and> (\<forall>qs p. length (ppf m qs p) = length qs)"

section \<open>numpy operations\<close>

text \<open>
  A binary operation on two one-dimensional arrays: elementwise when the lengths agree,
  an array of length one is broadcast, any other pair of lengths raises ValueError.
\<close>

definition np_broadcast :: "('a \<Rightarrow> 'b \<Rightarrow> 'c) \<Rightarrow> 'a list \<Rightarrow> 'b list \<Rightarrow> error + 'c list" where
  "np_broadcast f xs ys =
     (if length xs = length ys then Inr (map2 f xs ys)
      else if length ys = 1 then Inr (map (\<lambda>x. f x (hd ys)) xs)
      else if length xs = 1 then Inr (map (\<lambda>y. f (hd xs) y) ys)
      else Inl ValueError)"

definition np_add :: "array \<Rightarrow> array \<Rightarrow> error + array" where
  "np_add = np_broadcast (+)"

definition np_sub :: "array \<Rightarrow> array \<Rightarrow> error + array" where
  "np_sub = np_broadcast (-)"

definition np_logical_and :: "bool list \<Rightarrow> bool list \<Rightarrow> error + bool list" where
  "np_logical_and = np_broadcast (\<and>)"

text \<open>\<open>np.mean\<close>: the mean of an empty array is \<open>0.0 / 0\<close>, which numpy evaluates to nan.\<close>

definition np_mean :: "array \<Rightarrow> error + real" where
  "np_mean xs = (if xs = [] then Inl DivideByZero else Inr (sum_list xs / real (length xs)))"

text \<open>Division of two float scalars, and of every element of an array by a scalar.\<close>

definition np_div :: "real \<Rightarrow> real \<Rightarrow> error + real" where
  "np_div a b = (if b = 0 then Inl DivideByZero else Inr (a / b))"

definition np_div_scalar :: "array \<Rightarrow> real \<Rightarrow> error + array" where
  "np_div_scalar xs d =
     (if xs \<noteq> [] \<and> d = 0 then Inl DivideByZero else Inr (map (\<lambda>x. x / d) xs))"

text \<open>\<open>xs[idx]\<close> with an integer index array, as \<open>np.where\<close> returns it.\<close>

definition np_take :: "'a list \<Rightarrow> nat list \<Rightarrow> error + 'a list" where
  "np_take xs idx =
     (if \<forall>i \<in> set idx. i < length xs then Inr (map (\<lambda>i. xs ! i) idx) else Inl IndexError)"

text \<open>\<open>xs[mask]\<close> with a boolean mask: the mask has to be as long as the array.\<close>

definition np_compress :: "'a list \<Rightarrow> bool list \<Rightarrow> error + 'a list" where
  "np_compress xs msk =
     (if length msk = length xs then Inr (map fst (filter snd (zip xs msk)))
      else Inl IndexError)"

text \<open>
  \<open>xs[idx] = vals\<close>: the values are written in the order of \<open>idx\<close>, a later write to
  the same index wins; one value is broadcast to every index.
\<close>

definition np_put :: "'a list \<Rightarrow> nat list \<Rightarrow> 'a list \<Rightarrow> error + 'a list" where
  "np_put xs idx vals =
     (if \<not> (\<forall>i \<in> set idx. i < length xs) then Inl IndexError
      else if length vals = length idx
        then Inr (fold (\<lambda>(i, v) a. a[i := v]) (zip idx vals) xs)
      else if length vals = 1
        then Inr (fold (\<lambda>i a. a[i := hd vals]) idx xs)
      else Inl ValueError)"

definition np_in1d :: "'a list \<Rightarrow> 'a list \<Rightarrow> bool list" where
  "np_in1d xs ys = map (\<lambda>x. x \<in> set ys) xs"

section \<open>Helpers of the utils module\<close>

text \<open>
  Both debiasers import helpers of the package's utils module, which is not among the
  sources. \<open>threshold_cdf_vals\<close> and \<open>check_time_information_and_raise_error\<close> are
  written from what the spec says of them; the others are parameters of the model,
  collected in the record \<open>utils\<close>.
\<close>

text \<open>
  Modelled from the spec: \<open>threshold_cdf_vals\<close> of the utils module is imported by
  the ECDFM source and not part of it. The spec: a pure elementwise function that clamps
  CDF outputs into \<open>[threshold, 1 - threshold]\<close>.
\<close>

definition threshold_cdf_vals :: "array \<Rightarrow> real \<Rightarrow> array" where
  "threshold_cdf_vals cdf_vals cdf_threshold =
     map (\<lambda>v. max cdf_threshold (min (1 - cdf_threshold) v)) cdf_vals"

text \<open>
  Modelled from the spec: \<open>check_time_information_and_raise_error\<close> of the utils
  module is imported by the ECDFM source and not part of it. The spec: validate that each
  series' length matches its timestamp array; fail validation otherwise.
\<close>

definition check_time_information_and_raise_error ::
  "array \<Rightarrow> array \<Rightarrow> array \<Rightarrow> 't list \<Rightarrow> 't list \<Rightarrow> 't list \<Rightarrow> error + unit" where
  "check_time_information_and_raise_error obs cm_hist cm_future time_obs time_cm_hist
       time_cm_future =
     (if length obs = length time_obs \<and> length cm_hist = length time_cm_hist
         \<and> length cm_future = length time_cm_future
      then Inr () else Inl ValueError)"

text \<open>
  The object that \<open>RunningWindowOverDaysOfYear\<close> constructs, by the two methods that
  ECDFM calls. \<open>use\<close> is a generator of pairs (window center, indices of the values to
  correct); the model lists what it yields.
\<close>

record running_window_over_days_of_year =
  use :: "nat list \<Rightarrow> int list \<Rightarrow> (nat \<times> nat list) list"
  get_indices_vals_in_window :: "nat list \<Rightarrow> nat \<Rightarrow> nat list"

text \<open>
  The other helpers, over timestamps of a type \<open>'t\<close>. \<open>uninitialised\<close> is what the
  cells of an array from \<open>np.empty_like\<close> hold before they are written.
\<close>

record 't utils =
  RunningWindowOverDaysOfYear :: "int \<Rightarrow> int \<Rightarrow> running_window_over_days_of_year"
  infer_and_create_time_arrays_if_not_given ::
    "array \<Rightarrow> array \<Rightarrow> array \<Rightarrow> 't list option \<Rightarrow> 't list option \<Rightarrow> 't list option
       \<Rightarrow> 't list \<times> 't list \<times> 't list"
  year :: "'t list \<Rightarrow> int list"
  day_of_year :: "'t list \<Rightarrow> nat list"
  get_mask_for_unique_subarray :: "nat list \<Rightarrow> bool list"
  uninitialised :: "nat \<Rightarrow> real"

definition np_empty_like :: "('t, 'z) utils_scheme \<Rightarrow> array \<Rightarrow> array" where
  "np_empty_like u xs = map (uninitialised u) [0..<length xs]"

section \<open>Construction: the attrs validators\<close>

text \<open>
  The values a caller can pass to a constructor. \<open>PyModel\<close> is an instance of one of
  the four classes the \<open>distribution\<close> validator accepts.
\<close>

datatype 'p pyval =
  PyNone | PyBool bool | PyInt int | PyFloat real | PyStr string | PyModel "'p model"

text \<open>
  \<open>isinstance(v, int)\<close> and the value compared by \<open>gt\<close>: a Python bool is an int,
  a float is not.
\<close>

fun int_of :: "'p pyval \<Rightarrow> int option" where
  "int_of (PyInt i) = Some i"
| "int_of (PyBool b) = Some (if b then 1 else 0)"
| "int_of _ = None"

text \<open>A keyword argument that the caller left out takes the field's default.\<close>

definition default :: "'a \<Rightarrow> 'a option \<Rightarrow> 'a" where
  "default d v = (case v of None \<Rightarrow> d | Some x \<Rightarrow> x)"

text \<open>
  The two debiasers declare \<open>distribution\<close> with the same validator; the model
  declares the field once, in a record that both extend. The label \<open>variable\<close> of the
  base class has no effect on the transform and is left out.
\<close>

record 'p Debiaser =
  distribution :: "'p model"

section \<open>ECDFM\<close>

record 'p ECDFM = "'p Debiaser" +
  cdf_threshold :: real
  running_window_mode :: bool
  running_window_length :: int
  running_window_step_length :: int
  running_window :: "running_window_over_days_of_year option"

definition attrs_post_init :: "('t, 'z) utils_scheme \<Rightarrow> 'p ECDFM \<Rightarrow> 'p ECDFM" where
  "attrs_post_init u self =
     (if running_window_mode self
      then self\<lparr>running_window :=
             Some (RunningWindowOverDaysOfYear u (running_window_length self)
                     (running_window_step_length self))\<rparr>
      else self)"

text \<open>
  The generated \<open>__init__\<close>: the validators run in the order of the fields, the first
  that fails raises (\<open>instance_of\<close> a TypeError, \<open>gt\<close> a ValueError), then
  \<open>__attrs_post_init__\<close> runs.
\<close>

definition ECDFM_init ::
  "('t, 'z) utils_scheme \<Rightarrow> 'p pyval \<Rightarrow> 'p pyval option \<Rightarrow> 'p pyval option \<Rightarrow> 'p pyval option
     \<Rightarrow> 'p pyval option \<Rightarrow> error + 'p ECDFM" where
  "ECDFM_init u distribution_arg cdf_threshold_arg running_window_mode_arg
       running_window_length_arg running_window_step_length_arg =
     (case distribution_arg of
        PyModel d \<Rightarrow>
          (case default (PyFloat (1 / 10 ^ 10)) cdf_threshold_arg of
             PyFloat t \<Rightarrow>
               (case default (PyBool True) running_window_mode_arg of
                  PyBool m \<Rightarrow>
                    (case int_of (default (PyInt 31) running_window_length_arg) of
                       None \<Rightarrow> Inl TypeError
                     | Some l \<Rightarrow>
                         if \<not> 0 < l then Inl ValueError
                         else
                           (case int_of (default (PyInt 31) running_window_step_length_arg) of
                              None \<Rightarrow> Inl TypeError
                            | Some s \<Rightarrow>
                                if \<not> 0 < s then Inl ValueError
                                else Inr (attrs_post_init u
                                  \<lparr>distribution = d, cdf_threshold = t,
                                   running_window_mode = m, running_window_length = l,
                                   running_window_step_length = s,
                                   running_window = None\<rparr>)))
                | _ \<Rightarrow> Inl TypeError)
           | _ \<Rightarrow> Inl TypeError)
      | _ \<Rightarrow> Inl TypeError)"

text \<open>Sequencing: an exception ends the computation.\<close>

definition and_then :: "error + 'a \<Rightarrow> ('a \<Rightarrow> error + 'b) \<Rightarrow> error + 'b" where
  "and_then r k = (case r of Inl e \<Rightarrow> Inl e | Inr x \<Rightarrow> k x)"

definition apply_on_within_year_window ::
  "'p ECDFM \<Rightarrow> array \<Rightarrow> array \<Rightarrow> array \<Rightarrow> error + array" where
  "apply_on_within_year_window self obs cm_hist cm_future =
     (let fit_obs = fit (distribution self) obs;
          fit_cm_hist = fit (distribution self) cm_hist;
          fit_cm_future = fit (distribution self) cm_future;
          quantile_cm_future =
            threshold_cdf_vals (cdf (distribution self) cm_future fit_cm_future)
              (cdf_threshold self)
      in and_then (np_add cm_future (ppf (distribution self) quantile_cm_future fit_obs))
           (\<lambda>s. np_sub s (ppf (distribution self) quantile_cm_future fit_cm_hist)))"

text \<open>
  The body of the loop over the windows. The right-hand side of the assignment is
  evaluated first: the three donor subsets, the call, the mask, the selection; then the
  selected values are written at the indices to correct.
\<close>

definition window_step ::
  "('t, 'z) utils_scheme \<Rightarrow> 'p ECDFM \<Rightarrow> running_window_over_days_of_year
     \<Rightarrow> array \<Rightarrow> array \<Rightarrow> array \<Rightarrow> nat list \<Rightarrow> nat list \<Rightarrow> nat list
     \<Rightarrow> nat \<times> nat list \<Rightarrow> array \<Rightarrow> error + array" where
  "window_step u self rw obs cm_hist cm_future days_of_year_obs days_of_year_cm_hist
       days_of_year_cm_future p debiased_cm_future =
     (case p of (window_center, indices_bias_corrected_values) \<Rightarrow>
        let indices_window_obs = get_indices_vals_in_window rw days_of_year_obs window_center;
            indices_window_cm_hist =
              get_indices_vals_in_window rw days_of_year_cm_hist window_center;
            indices_window_cm_future =
              get_indices_vals_in_window rw days_of_year_cm_future window_center
        in and_then (np_take obs indices_window_obs) (\<lambda>obs_w.
           and_then (np_take cm_hist indices_window_cm_hist) (\<lambda>cm_hist_w.
           and_then (np_take cm_future indices_window_cm_future) (\<lambda>cm_future_w.
           and_then (apply_on_within_year_window self obs_w cm_hist_w cm_future_w) (\<lambda>res.
           and_then (np_logical_and
                       (np_in1d indices_window_cm_future indices_bias_corrected_values)
                       (get_mask_for_unique_subarray u indices_window_cm_future)) (\<lambda>msk.
           and_then (np_compress res msk) (\<lambda>vals.
           np_put debiased_cm_future indices_bias_corrected_values vals)))))))"

fun window_loop ::
  "('t, 'z) utils_scheme \<Rightarrow> 'p ECDFM \<Rightarrow> running_window_over_days_of_year
     \<Rightarrow> array \<Rightarrow> array \<Rightarrow> array \<Rightarrow> nat list \<Rightarrow> nat list \<Rightarrow> nat list
     \<Rightarrow> (nat \<times> nat list) list \<Rightarrow> array \<Rightarrow> error + array" where
  "window_loop u self rw obs cm_hist cm_future d_obs d_cm_hist d_cm_future []
       debiased_cm_future = Inr debiased_cm_future"
| "window_loop u self rw obs cm_hist cm_future d_obs d_cm_hist d_cm_future (p # ps)
       debiased_cm_future =
     and_then
       (window_step u self rw obs cm_hist cm_future d_obs d_cm_hist d_cm_future p
          debiased_cm_future)
       (window_loop u self rw obs cm_hist cm_future d_obs d_cm_hist d_cm_future ps)"

text \<open>
  The time arrays after the first \<open>if\<close> of \<open>apply_location\<close>: the caller's when all
  three are given, the inferred ones when one is \<open>None\<close>.
\<close>

definition time_arrays ::
  "('t, 'z) utils_scheme \<Rightarrow> array \<Rightarrow> array \<Rightarrow> array
     \<Rightarrow> 't list option \<Rightarrow> 't list option \<Rightarrow> 't list option \<Rightarrow> 't list \<times> 't list \<times> 't list" where
  "time_arrays u obs cm_hist cm_future time_obs time_cm_hist time_cm_future =
     (if time_obs = None \<or> time_cm_hist = None \<or> time_cm_future = None
      then infer_and_create_time_arrays_if_not_given u obs cm_hist cm_future
             time_obs time_cm_hist time_cm_future
      else (the time_obs, the time_cm_hist, the time_cm_future))"

text \<open>
  \<open>apply_location\<close> returns its result together with the warnings it emitted. A
  debiaser built with the running window off has no attribute \<open>running_window\<close>.
\<close>

definition ECDFM_apply_location ::
  "('t, 'z) utils_scheme \<Rightarrow> 'p ECDFM \<Rightarrow> array \<Rightarrow> array \<Rightarrow> array
     \<Rightarrow> 't list option \<Rightarrow> 't list option \<Rightarrow> 't list option
     \<Rightarrow> warning list \<times> (error + array)" where
  "ECDFM_apply_location u self obs cm_hist cm_future time_obs time_cm_hist time_cm_future =
     (if running_window_mode self then
        (let warnings =
               (if time_obs = None \<or> time_cm_hist = None \<or> time_cm_future = None
                then [UserWarning] else [])
         in (warnings,
             case time_arrays u obs cm_hist cm_future time_obs time_cm_hist time_cm_future of
               (t_obs, t_cm_hist, t_cm_future) \<Rightarrow>
                 and_then
                   (check_time_information_and_raise_error obs cm_hist cm_future
                      t_obs t_cm_hist t_cm_future) (\<lambda>_.
                   let years_cm_future = year u t_cm_future;
                       days_of_year_obs = day_of_year u t_obs;
                       days_of_year_cm_hist = day_of_year u t_cm_hist;
                       days_of_year_cm_future = day_of_year u t_cm_future;
                       debiased_cm_future = np_empty_like u cm_future
                   in case running_window self of
                        None \<Rightarrow> Inl AttributeError
                      | Some rw \<Rightarrow>
                          window_loop u self rw obs cm_hist cm_future days_of_year_obs
                            days_of_year_cm_hist days_of_year_cm_future
                            (use rw days_of_year_cm_future years_cm_future)
                            debiased_cm_future)))
      else ([], apply_on_within_year_window self obs cm_hist cm_future))"

section \<open>Quantile mapping\<close>

record 'p QuantileMapping = "'p Debiaser" +
  detrending :: string

text \<open>The validator \<open>in_\<close> raises a ValueError for a value that is not in the list.\<close>

definition QuantileMapping_init ::
  "'p pyval \<Rightarrow> 'p pyval option \<Rightarrow> error + 'p QuantileMapping" where
  "QuantileMapping_init distribution_arg detrending_arg =
     (case distribution_arg of
        PyModel d \<Rightarrow>
          (case default (PyStr ''no_detrending'') detrending_arg of
             PyStr s \<Rightarrow>
               if s \<in> set [''additive'', ''multiplicative'', ''no_detrending'']
               then Inr \<lparr>distribution = d, detrending = s\<rparr>
               else Inl ValueError
           | _ \<Rightarrow> Inl ValueError)
      | _ \<Rightarrow> Inl TypeError)"

definition standard_qm :: "'p QuantileMapping \<Rightarrow> array \<Rightarrow> 'p \<Rightarrow> 'p \<Rightarrow> array" where
  "standard_qm self x fit_cm_hist fit_obs =
     ppf (distribution self) (cdf (distribution self) x fit_cm_hist) fit_obs"

definition QuantileMapping_apply_location ::
  "'p QuantileMapping \<Rightarrow> array \<Rightarrow> array \<Rightarrow> array \<Rightarrow> error + array" where
  "QuantileMapping_apply_location self obs cm_hist cm_future =
     (let fit_obs = fit (distribution self) obs;
          fit_cm_hist = fit (distribution self) cm_hist
      in if detrending self = ''additive'' then
           and_then (np_mean cm_future) (\<lambda>mean_cm_future.
           and_then (np_mean cm_hist) (\<lambda>mean_cm_hist.
             let delta = mean_cm_future - mean_cm_hist
             in Inr (map (\<lambda>y. y + delta)
                       (standard_qm self (map (\<lambda>x. x - delta) cm_future) fit_cm_hist
                          fit_obs))))
         else if detrending self = ''multiplicative'' then
           and_then (np_mean cm_future) (\<lambda>mean_cm_future.
           and_then (np_mean cm_hist) (\<lambda>mean_cm_hist.
           and_then (np_div mean_cm_future mean_cm_hist) (\<lambda>delta.
           and_then (np_div_scalar cm_future delta) (\<lambda>scaled.
             Inr (map (\<lambda>y. y * delta) (standard_qm self scaled fit_cm_hist fit_obs))))))
         else if detrending self = ''no_detrending'' then
           Inr (standard_qm self cm_future fit_cm_hist fit_obs)
         else Inl ValueError)"

text \<open>The sample mean, where it is a number.\<close>

definition mean :: "array \<Rightarrow> real" where
  "mean xs = sum_list xs / real (length xs)"

section \<open>Valid inputs\<close>

text \<open>A window length or step length that passes its two validators.\<close>

definition positive_int :: "'p pyval \<Rightarrow> bool" where
  "positive_int v = (case int_of v of None \<Rightarrow> False | Some n \<Rightarrow> 0 < n)"

text \<open>
  The series on which quantile mapping computes a number: the means that the detrending
  takes exist, and nothing is divided by zero.
\<close>

definition valid_QuantileMapping_input :: "'p QuantileMapping \<Rightarrow> array \<Rightarrow> array \<Rightarrow> bool" where
  "valid_QuantileMapping_input self cm_hist cm_future \<longleftrightarrow>
     detrending self \<in> {''additive'', ''multiplicative'', ''no_detrending''}
     \<and> (detrending self \<noteq> ''no_detrending'' \<longrightarrow> cm_hist \<noteq> [] \<and> cm_future \<noteq> [])
     \<and> (detrending self = ''multiplicative'' \<longrightarrow> mean cm_hist \<noteq> 0 \<and> mean cm_future \<noteq> 0)"

text \<open>
  One pair that the running window yields fits the three series: the window's indices
  and the indices to correct lie in the series, and the mask selects as many values of
  the window as there are indices to correct.
\<close>

definition valid_window ::
  "('t, 'z) utils_scheme \<Rightarrow> running_window_over_days_of_year \<Rightarrow> array \<Rightarrow> array \<Rightarrow> array
     \<Rightarrow> nat list \<Rightarrow> nat list \<Rightarrow> nat list \<Rightarrow> nat \<times> nat list \<Rightarrow> bool" where
  "valid_window u rw obs cm_hist cm_future d_obs d_cm_hist d_cm_future p \<longleftrightarrow>
     (case p of (window_center, indices_bias_corrected_values) \<Rightarrow>
        let indices_window_cm_future =
              get_indices_vals_in_window rw d_cm_future window_center;
            unique = get_mask_for_unique_subarray u indices_window_cm_future
        in (\<forall>i \<in> set (get_indices_vals_in_window rw d_obs window_center). i < length obs)
           \<and> (\<forall>i \<in> set (get_indices_vals_in_window rw d_cm_hist window_center).
                 i < length cm_hist)
           \<and> (\<forall>i \<in> set indices_window_cm_future. i < length cm_future)
           \<and> (\<forall>i \<in> set indices_bias_corrected_values. i < length cm_future)
           \<and> length unique = length indices_window_cm_future
           \<and> length (filter id
                 (map2 (\<and>) (np_in1d indices_window_cm_future indices_bias_corrected_values)
                    unique))
               = length indices_bias_corrected_values)"

text \<open>
  The inputs on which ECDFM returns: with the running window off every triple of series,
  with the running window on those whose time arrays are as long as the series and
  whose windows all fit.
\<close>

definition valid_ECDFM_input ::
  "('t, 'z) utils_scheme \<Rightarrow> 'p ECDFM \<Rightarrow> array \<Rightarrow> array \<Rightarrow> array
     \<Rightarrow> 't list option \<Rightarrow> 't list option \<Rightarrow> 't list option \<Rightarrow> bool" where
  "valid_ECDFM_input u self obs cm_hist cm_future time_obs time_cm_hist time_cm_future \<longleftrightarrow>
     (running_window_mode self \<longrightarrow>
        (case time_arrays u obs cm_hist cm_future time_obs time_cm_hist time_cm_future of
           (t_obs, t_cm_hist, t_cm_future) \<Rightarrow>
             length obs = length t_obs \<and> length cm_hist = length t_cm_hist
             \<and> length cm_future = length t_cm_future
             \<and> (case running_window self of
                   None \<Rightarrow> False
                 | Some rw \<Rightarrow>
                     \<forall>p \<in> set (use rw (day_of_year u t_cm_future) (year u t_cm_future)).
                       valid_window u rw obs cm_hist cm_future (day_of_year u t_obs)
                         (day_of_year u t_cm_hist) (day_of_year u t_cm_future) p)))"

section \<open>A model and helpers to evaluate the debiasers on\<close>

text \<open>
  A one-parameter family of continuous distributions on the whole real line: the
  distribution function is \<open>F(z) = (1 + z / (1 + |z|)) / 2\<close> shifted by the location
  \<open>p\<close>, its inverse is \<open>q \<mapsto> p + (2 q - 1) / (1 - |2 q - 1|)\<close>, and the fit takes the
  sample mean as location.
\<close>

definition location_cdf :: "real \<Rightarrow> real" where
  "location_cdf z = (1 + z / (1 + \<bar>z\<bar>)) / 2"

definition location_ppf :: "real \<Rightarrow> real" where
  "location_ppf q = (2 * q - 1) / (1 - \<bar>2 * q - 1\<bar>)"

definition location_model :: "real model" where
  "location_model =
     \<lparr>fit = (\<lambda>xs. if xs = [] then 0 else sum_list xs / real (length xs)),
      cdf = (\<lambda>xs p. map (\<lambda>x. location_cdf (x - p)) xs),
      ppf = (\<lambda>qs p. map (\<lambda>q. p + location_ppf q) qs)\<rparr>"

text \<open>
  A running window over timestamps that are days of the year: every day that occurs is a
  window center, the values to correct are those of the center's day, the window holds
  the days at most \<open>length div 2\<close> from the center.
\<close>

definition day_window :: "int \<Rightarrow> int \<Rightarrow> running_window_over_days_of_year" where
  "day_window window_length window_step_length =
     \<lparr>use = (\<lambda>days years.
        map (\<lambda>c. (c, filter (\<lambda>i. days ! i = c) [0..<length days])) (remdups days)),
      get_indices_vals_in_window = (\<lambda>days c.
        filter (\<lambda>i. \<bar>int (days ! i) - int c\<bar> \<le> window_length div 2) [0..<length days])\<rparr>"

definition day_utils :: "nat utils" where
  "day_utils =
     \<lparr>RunningWindowOverDaysOfYear = day_window,
      infer_and_create_time_arrays_if_not_given = (\<lambda>obs cm_hist cm_future t_obs t_cm_hist
        t_cm_future.
          (default (map (\<lambda>i. i mod 365 + 1) [0..<length obs]) t_obs,
           default (map (\<lambda>i. i mod 365 + 1) [0..<length cm_hist]) t_cm_hist,
           default (map (\<lambda>i. i mod 365 + 1) [0..<length cm_future]) t_cm_future)),
      year = (\<lambda>ts. map (\<lambda>t. 2000) ts),
      day_of_year = (\<lambda>ts. ts),
      get_mask_for_unique_subarray = (\<lambda>xs. map (\<lambda>i. xs ! i \<notin> set (take i xs)) [0..<length xs]),
      uninitialised = (\<lambda>i. 0)\<rparr>"

text \<open>Debiasers over that model: ECDFM with the running window off and on.\<close>

definition location_ECDFM :: "real ECDFM" where
  "location_ECDFM =
     \<lparr>distribution = location_model, cdf_threshold = 1 / 4, running_window_mode = False,
      running_window_length = 31, running_window_step_length = 31, running_window = None\<rparr>"

definition day_window_ECDFM :: "real ECDFM" where
  "day_window_ECDFM =
     \<lparr>distribution = location_model, cdf_threshold = 1 / 4, running_window_mode = True,
      running_window_length = 3, running_window_step_length = 1,
      running_window = Some (day_window 3 1)\<rparr>"

definition location_QuantileMapping :: "string \<Rightarrow> real QuantileMapping" where
  "location_QuantileMapping mode = \<lparr>distribution = location_model, detrending = mode\<rparr>"

section \<open>Properties\<close>

subsection \<open>Helper lemmas\<close>

lemma and_then_Inr [simp]: "and_then (Inr x) k = k x"
  by (simp add: and_then_def)

lemma and_then_Inl [simp]: "and_then (Inl e) k = Inl e"
  by (simp add: and_then_def)

lemma shape_preservingD:
  "shape_preserving m \<Longrightarrow> length (cdf m xs p) = length xs"
  "shape_preserving m \<Longrightarrow> length (ppf m qs p) = length qs"
  by (simp_all add: shape_preserving_def)

lemma np_broadcast_same_length:
  "length xs = length ys \<Longrightarrow> np_broadcast f xs ys = Inr (map2 f xs ys)"
  by (simp add: np_broadcast_def)

lemma np_mean_eq: "np_mean xs = (if xs = [] then Inl DivideByZero else Inr (mean xs))"
  by (simp add: np_mean_def mean_def)

lemma location_model_shape: "shape_preserving location_model"
  by (simp add: shape_preserving_def location_model_def)

lemma location_ppf_cdf: "location_ppf (location_cdf z) = z"
proof -
  have pos: "0 < 1 + \<bar>z\<bar>" by simp
  have "2 * location_cdf z - 1 = z / (1 + \<bar>z\<bar>)"
    using pos by (simp add: location_cdf_def field_simps)
  moreover have "\<bar>z / (1 + \<bar>z\<bar>)\<bar> = \<bar>z\<bar> / (1 + \<bar>z\<bar>)"
    by simp
  moreover have "1 - \<bar>z\<bar> / (1 + \<bar>z\<bar>) = 1 / (1 + \<bar>z\<bar>)"
    using pos by (simp add: field_simps)
  ultimately show ?thesis
    using pos by (simp add: location_ppf_def)
qed

lemma location_model_inverts:
  "ppf location_model (cdf location_model xs p) p = xs"
  by (simp add: location_model_def location_ppf_cdf comp_def)

lemma threshold_cdf_vals_id:
  assumes "\<forall>v \<in> set vs. t \<le> v \<and> v \<le> 1 - t"
  shows "threshold_cdf_vals vs t = vs"
  using assms by (induction vs) (auto simp: threshold_cdf_vals_def)

lemma map2_add_sub_cancel:
  fixes xs ys :: "real list"
  assumes "length ys = length xs"
  shows "map2 (-) (map2 (+) xs ys) xs = ys"
  using assms by (induction xs ys rule: list_induct2') auto

lemma apply_on_within_year_window_length:
  assumes "shape_preserving (distribution self)"
  shows "\<exists>ys. apply_on_within_year_window self obs cm_hist cm_future = Inr ys
           \<and> length ys = length cm_future"
  using assms
  by (simp add: apply_on_within_year_window_def Let_def np_add_def np_sub_def
      np_broadcast_same_length shape_preservingD threshold_cdf_vals_def)

subsection \<open>The per-window core of ECDFM\<close>

text \<open>
  Claim C1. For every ECDFM configuration over a shape-preserving model and every triple
  of series, the per-window core returns an array as long as \<open>cm_future\<close> whose element
  \<open>i\<close> is \<open>cm_future[i] + ppf(q, params_obs)[i] - ppf(q, params_hist)[i]\<close>. The three
  parameter sets are three fits, on \<open>obs\<close>, \<open>cm_hist\<close> and \<open>cm_future\<close>, and \<open>q\<close> is
  the cdf of \<open>cm_future\<close> under its own fit, clamped elementwise by the threshold; for a
  threshold of at most one half every element of \<open>q\<close> lies in
  \<open>[cdf_threshold, 1 - cdf_threshold]\<close>.
\<close>

theorem ECDFM_window_core:
  assumes "shape_preserving (distribution self)"
  shows "let d = distribution self;
             q = map (\<lambda>v. max (cdf_threshold self) (min (1 - cdf_threshold self) v))
                   (cdf d cm_future (fit d cm_future))
         in (\<exists>ys. apply_on_within_year_window self obs cm_hist cm_future = Inr ys
               \<and> length ys = length cm_future
               \<and> (\<forall>i < length cm_future.
                     ys ! i = cm_future ! i + ppf d q (fit d obs) ! i
                                - ppf d q (fit d cm_hist) ! i))
            \<and> (cdf_threshold self \<le> 1 / 2 \<longrightarrow>
                 (\<forall>v \<in> set q. cdf_threshold self \<le> v \<and> v \<le> 1 - cdf_threshold self))"
proof -
  have core:
    "\<exists>ys. apply_on_within_year_window self obs cm_hist cm_future = Inr ys
       \<and> length ys = length cm_future
       \<and> (\<forall>i < length cm_future.
             ys ! i =
               cm_future ! i
               + ppf (distribution self)
                   (map (\<lambda>v. max (cdf_threshold self) (min (1 - cdf_threshold self) v))
                      (cdf (distribution self) cm_future (fit (distribution self) cm_future)))
                   (fit (distribution self) obs) ! i
               - ppf (distribution self)
                   (map (\<lambda>v. max (cdf_threshold self) (min (1 - cdf_threshold self) v))
                      (cdf (distribution self) cm_future (fit (distribution self) cm_future)))
                   (fit (distribution self) cm_hist) ! i)"
    using assms
    by (simp add: apply_on_within_year_window_def Let_def np_add_def np_sub_def
        np_broadcast_same_length shape_preservingD threshold_cdf_vals_def)
  have range:
    "cdf_threshold self \<le> 1 / 2 \<longrightarrow>
       (\<forall>v \<in> set (map (\<lambda>v. max (cdf_threshold self) (min (1 - cdf_threshold self) v))
                     (cdf (distribution self) cm_future (fit (distribution self) cm_future))).
          cdf_threshold self \<le> v \<and> v \<le> 1 - cdf_threshold self)"
    by auto
  from core range show ?thesis
    unfolding Let_def by (rule conjI)
qed

theorem ECDFM_window_core_witness:
  "shape_preserving (distribution location_ECDFM)
   \<and> apply_on_within_year_window location_ECDFM [1, 3] [- 3, 3] [- 3, 3] = Inr [- 1, 5]"
proof -
  have sp: "shape_preserving (distribution location_ECDFM)"
    by (simp add: location_ECDFM_def location_model_shape)
  have val: "apply_on_within_year_window location_ECDFM [1, 3] [- 3, 3] [- 3, 3] = Inr [- 1, 5]"
    by (simp add: apply_on_within_year_window_def location_ECDFM_def Let_def location_model_def
        np_add_def np_sub_def np_broadcast_def threshold_cdf_vals_def location_cdf_def
        location_ppf_def)
  note ECDFM_window_core
    [OF sp, where cm_future = "[- 3, 3]" and obs = "[1, 3]" and cm_hist = "[- 3, 3]"]
  with sp val show ?thesis by simp
qed

text \<open>
  Claim C5, amended. For a shape-preserving model whose ppf inverts its cdf, and a
  \<open>cm_future\<close> whose cdf values under its own fit all lie in
  \<open>[cdf_threshold, 1 - cdf_threshold]\<close>, so that the clamp changes none of them, ECDFM
  with \<open>cm_hist\<close> equal to \<open>cm_future\<close> returns the direct quantile mapping of
  \<open>cm_future\<close> onto \<open>obs\<close>, \<open>ppf(q, params_obs)\<close> with \<open>q\<close> the clipped cdf of
  \<open>cm_future\<close> under its own fit, in exact arithmetic: the \<open>cm_future\<close> term and the
  \<open>ppf(q, params_hist)\<close> term cancel.
\<close>

theorem ECDFM_same_hist_future:
  assumes "shape_preserving (distribution self)"
    and "\<forall>xs p. ppf (distribution self) (cdf (distribution self) xs p) p = xs"
    and "\<forall>v \<in> set (cdf (distribution self) cm_future (fit (distribution self) cm_future)).
           cdf_threshold self \<le> v \<and> v \<le> 1 - cdf_threshold self"
  shows "apply_on_within_year_window self obs cm_future cm_future =
           Inr (ppf (distribution self)
                  (threshold_cdf_vals
                     (cdf (distribution self) cm_future (fit (distribution self) cm_future))
                     (cdf_threshold self))
                  (fit (distribution self) obs))"
proof -
  let ?d = "distribution self"
  let ?c = "cdf ?d cm_future (fit ?d cm_future)"
  have q: "threshold_cdf_vals ?c (cdf_threshold self) = ?c"
    using assms(3) by (rule threshold_cdf_vals_id)
  have inv: "ppf ?d ?c (fit ?d cm_future) = cm_future"
    using assms(2) by simp
  have len: "length (ppf ?d ?c (fit ?d obs)) = length cm_future"
    using assms(1) by (simp add: shape_preservingD)
  show ?thesis
    using len
    by (simp add: apply_on_within_year_window_def Let_def q inv np_add_def np_sub_def
        np_broadcast_same_length map2_add_sub_cancel)
qed

theorem ECDFM_same_hist_future_witness:
  "shape_preserving (distribution location_ECDFM)
   \<and> (\<forall>xs p. ppf (distribution location_ECDFM) (cdf (distribution location_ECDFM) xs p) p
          = xs)
   \<and> cdf (distribution location_ECDFM) [- 1, 1] (fit (distribution location_ECDFM) [- 1, 1])
       = [1 / 4, 3 / 4]
   \<and> cdf_threshold location_ECDFM = 1 / 4
   \<and> apply_on_within_year_window location_ECDFM [1, 3] [- 1, 1] [- 1, 1] = Inr [1, 3]"
proof -
  have sp: "shape_preserving (distribution location_ECDFM)"
    by (simp add: location_ECDFM_def location_model_shape)
  have inv:
    "\<forall>xs p. ppf (distribution location_ECDFM) (cdf (distribution location_ECDFM) xs p) p = xs"
    by (simp add: location_ECDFM_def location_model_inverts)
  have c: "cdf (distribution location_ECDFM) [- 1, 1]
             (fit (distribution location_ECDFM) [- 1, 1]) = [1 / 4, 3 / 4]"
    by (simp add: location_ECDFM_def location_model_def location_cdf_def)
  have t: "cdf_threshold location_ECDFM = 1 / 4"
    by (simp add: location_ECDFM_def)
  have rng:
    "\<forall>v \<in> set (cdf (distribution location_ECDFM) [- 1, 1]
                   (fit (distribution location_ECDFM) [- 1, 1])).
       cdf_threshold location_ECDFM \<le> v \<and> v \<le> 1 - cdf_threshold location_ECDFM"
    unfolding c t by simp
  have "apply_on_within_year_window location_ECDFM [1, 3] [- 1, 1] [- 1, 1] = Inr [1, 3]"
    using ECDFM_same_hist_future [OF sp inv rng, where obs = "[1, 3]"]
    by (simp add: c)
      (simp add: location_ECDFM_def location_model_def threshold_cdf_vals_def location_ppf_def)
  with sp inv c t show ?thesis by simp
qed

text \<open>
  Without the condition on the clamp the statement fails. The model below keeps shapes
  and inverts its cdf on every array; with the threshold \<open>1/4\<close> the values
  \<open>cdf(-3) = 1/8\<close> and \<open>cdf(3) = 7/8\<close> are clamped to \<open>1/4\<close> and \<open>3/4\<close>, and the
  code returns \<open>[-1, 5]\<close> where \<open>ppf(q, params_obs)\<close> is \<open>[1, 3]\<close>.
\<close>

theorem ECDFM_same_hist_future_clamped:
  "shape_preserving (distribution location_ECDFM)
   \<and> (\<forall>xs p. ppf (distribution location_ECDFM) (cdf (distribution location_ECDFM) xs p) p
          = xs)
   \<and> apply_on_within_year_window location_ECDFM [1, 3] [- 3, 3] [- 3, 3] = Inr [- 1, 5]
   \<and> ppf (distribution location_ECDFM)
        (threshold_cdf_vals
           (cdf (distribution location_ECDFM) [- 3, 3]
              (fit (distribution location_ECDFM) [- 3, 3]))
           (cdf_threshold location_ECDFM))
        (fit (distribution location_ECDFM) [1, 3]) = [1, 3]
   \<and> apply_on_within_year_window location_ECDFM [1, 3] [- 3, 3] [- 3, 3]
       \<noteq> Inr (ppf (distribution location_ECDFM)
                (threshold_cdf_vals
                   (cdf (distribution location_ECDFM) [- 3, 3]
                      (fit (distribution location_ECDFM) [- 3, 3]))
                   (cdf_threshold location_ECDFM))
                (fit (distribution location_ECDFM) [1, 3]))"
proof -
  have sp: "shape_preserving (distribution location_ECDFM)"
    by (simp add: location_ECDFM_def location_model_shape)
  have inv:
    "\<forall>xs p. ppf (distribution location_ECDFM) (cdf (distribution location_ECDFM) xs p) p = xs"
    by (simp add: location_ECDFM_def location_model_inverts)
  have code: "apply_on_within_year_window location_ECDFM [1, 3] [- 3, 3] [- 3, 3] = Inr [- 1, 5]"
    by (simp add: apply_on_within_year_window_def location_ECDFM_def Let_def location_model_def
        np_add_def np_sub_def np_broadcast_def threshold_cdf_vals_def location_cdf_def
        location_ppf_def)
  have claimed:
    "ppf (distribution location_ECDFM)
       (threshold_cdf_vals
          (cdf (distribution location_ECDFM) [- 3, 3]
             (fit (distribution location_ECDFM) [- 3, 3]))
          (cdf_threshold location_ECDFM))
       (fit (distribution location_ECDFM) [1, 3]) = [1, 3]"
    by (simp add: location_ECDFM_def location_model_def threshold_cdf_vals_def
        location_cdf_def location_ppf_def)
  show ?thesis
    unfolding code claimed using sp inv by simp
qed

subsection \<open>Quantile mapping with detrending\<close>

lemma QuantileMapping_multiplicative_eq:
  assumes "detrending self = ''multiplicative''"
  shows "QuantileMapping_apply_location self obs cm_hist cm_future =
           (if cm_future = [] \<or> cm_hist = [] \<or> mean cm_hist = 0 \<or> mean cm_future = 0
            then Inl DivideByZero
            else let delta = mean cm_future / mean cm_hist
                 in Inr (map (\<lambda>y. y * delta)
                      (ppf (distribution self)
                         (cdf (distribution self) (map (\<lambda>x. x / delta) cm_future)
                            (fit (distribution self) cm_hist))
                         (fit (distribution self) obs))))"
  using assms
  by (simp add: QuantileMapping_apply_location_def Let_def np_mean_eq standard_qm_def
      np_div_def np_div_scalar_def)

text \<open>
  Claim C3. With additive detrending and any model, \<open>apply_location\<close> returns
  \<open>standard_qm(cm_future - delta) + delta\<close>, where
  \<open>delta = mean(cm_future) - mean(cm_hist)\<close> and
  \<open>standard_qm(x) = ppf(cdf(x, fit(cm_hist)), fit(obs))\<close>. The two means exist when the
  two series are not empty; the mean of an empty series is \<open>0.0 / 0\<close>.
\<close>

theorem QuantileMapping_additive:
  assumes "detrending self = ''additive''"
  shows "QuantileMapping_apply_location self obs cm_hist cm_future =
           (if cm_future = [] \<or> cm_hist = [] then Inl DivideByZero
            else let delta = mean cm_future - mean cm_hist
                 in Inr (map (\<lambda>y. y + delta)
                      (ppf (distribution self)
                         (cdf (distribution self) (map (\<lambda>x. x - delta) cm_future)
                            (fit (distribution self) cm_hist))
                         (fit (distribution self) obs))))"
  using assms
  by (simp add: QuantileMapping_apply_location_def Let_def np_mean_eq standard_qm_def)

theorem QuantileMapping_additive_witness:
  "detrending (location_QuantileMapping ''additive'') = ''additive''
   \<and> mean [2, 4] - mean [1, 2] = 3 / 2
   \<and> QuantileMapping_apply_location (location_QuantileMapping ''additive'') [5, 7] [1, 2] [2, 4]
       = Inr [13 / 2, 17 / 2]"
proof -
  have m: "detrending (location_QuantileMapping ''additive'') = ''additive''"
    by (simp add: location_QuantileMapping_def)
  have d: "mean [2, 4] - mean [1, 2] = 3 / 2"
    by (simp add: mean_def)
  have "QuantileMapping_apply_location (location_QuantileMapping ''additive'') [5, 7] [1, 2]
          [2, 4] = Inr [13 / 2, 17 / 2]"
    using QuantileMapping_additive
      [OF m, where obs = "[5, 7]" and cm_hist = "[1, 2]" and cm_future = "[2, 4]"]
    by (simp add: d)
      (simp add: location_QuantileMapping_def location_model_def location_cdf_def
        location_ppf_def)
  with m d show ?thesis by simp
qed

text \<open>
  Claim C4, amended. With multiplicative detrending and any model, under the
  precondition that \<open>mean(cm_hist)\<close> and \<open>mean(cm_future)\<close> both exist and are not
  zero, \<open>apply_location\<close> returns \<open>standard_qm(cm_future / delta) * delta\<close>, where
  \<open>delta = mean(cm_future) / mean(cm_hist)\<close>; when \<open>mean(cm_hist)\<close> is zero or does
  not exist, a division by zero is executed, which the code neither catches nor treats
  apart.
\<close>

theorem QuantileMapping_multiplicative:
  assumes "detrending self = ''multiplicative''"
  shows "(cm_hist \<noteq> [] \<and> cm_future \<noteq> [] \<and> mean cm_hist \<noteq> 0 \<and> mean cm_future \<noteq> 0 \<longrightarrow>
            QuantileMapping_apply_location self obs cm_hist cm_future =
              (let delta = mean cm_future / mean cm_hist
               in Inr (map (\<lambda>y. y * delta)
                    (ppf (distribution self)
                       (cdf (distribution self) (map (\<lambda>x. x / delta) cm_future)
                          (fit (distribution self) cm_hist))
                       (fit (distribution self) obs)))))
         \<and> (cm_hist = [] \<or> mean cm_hist = 0 \<longrightarrow>
              QuantileMapping_apply_location self obs cm_hist cm_future = Inl DivideByZero)"
  by (simp add: QuantileMapping_multiplicative_eq [OF assms])

theorem QuantileMapping_multiplicative_witness:
  "detrending (location_QuantileMapping ''multiplicative'') = ''multiplicative''
   \<and> mean [1] = 1 \<and> mean [2, 4] = 3
   \<and> QuantileMapping_apply_location (location_QuantileMapping ''multiplicative'')
        [5] [1] [2, 4] = Inr [14, 16]
   \<and> mean [1, - 1] = 0
   \<and> QuantileMapping_apply_location (location_QuantileMapping ''multiplicative'')
        [5] [1, - 1] [2, 4] = Inl DivideByZero"
proof -
  have m: "detrending (location_QuantileMapping ''multiplicative'') = ''multiplicative''"
    by (simp add: location_QuantileMapping_def)
  have means: "mean [1] = 1" "mean [2, 4] = 3" "mean [1, - 1] = 0"
    by (simp_all add: mean_def)
  have "QuantileMapping_apply_location (location_QuantileMapping ''multiplicative'')
          [5] [1] [2, 4] = Inr [14, 16]"
    using QuantileMapping_multiplicative
      [OF m, where obs = "[5]" and cm_hist = "[1]" and cm_future = "[2, 4]"]
    by (simp add: means)
      (simp add: location_QuantileMapping_def location_model_def location_cdf_def
        location_ppf_def)
  moreover have "QuantileMapping_apply_location (location_QuantileMapping ''multiplicative'')
          [5] [1, - 1] [2, 4] = Inl DivideByZero"
    using QuantileMapping_multiplicative
      [OF m, where obs = "[5]" and cm_hist = "[1, - 1]" and cm_future = "[2, 4]"]
    by (simp add: means)
  ultimately show ?thesis
    using m means by simp
qed

text \<open>
  The precondition \<open>mean(cm_hist) \<noteq> 0\<close> alone does not make the result defined. It
  holds below and a division by zero is executed all the same: the mean of \<open>cm_future\<close>
  is zero, so is \<open>delta\<close>, and \<open>cm_future / delta\<close> divides by zero.
\<close>

theorem QuantileMapping_multiplicative_zero_delta:
  "mean [1] \<noteq> 0
   \<and> QuantileMapping_apply_location (location_QuantileMapping ''multiplicative'')
        [5] [1] [1, - 1] = Inl DivideByZero"
  by (simp add: mean_def QuantileMapping_apply_location_def location_QuantileMapping_def
      Let_def np_mean_def np_div_def np_div_scalar_def)

text \<open>
  Claim C9. With multiplicative detrending the code divides \<open>cm_future\<close> by
  \<open>delta = mean(cm_future) / mean(cm_hist)\<close>: whenever \<open>mean(cm_future)\<close> is zero a
  division by zero is executed, also when \<open>mean(cm_hist)\<close> is not zero, and
  \<open>apply_location\<close> returns an array of numbers exactly when both means exist and
  neither is zero.
\<close>

theorem QuantileMapping_multiplicative_needs_both_means:
  assumes "detrending self = ''multiplicative''"
  shows "(cm_future \<noteq> [] \<and> mean cm_future = 0 \<longrightarrow>
            QuantileMapping_apply_location self obs cm_hist cm_future = Inl DivideByZero)
         \<and> ((\<exists>ys. QuantileMapping_apply_location self obs cm_hist cm_future = Inr ys) \<longleftrightarrow>
              cm_hist \<noteq> [] \<and> cm_future \<noteq> [] \<and> mean cm_hist \<noteq> 0 \<and> mean cm_future \<noteq> 0)"
  by (auto simp: QuantileMapping_multiplicative_eq [OF assms] Let_def)

theorem QuantileMapping_multiplicative_needs_both_means_witness:
  "detrending (location_QuantileMapping ''multiplicative'') = ''multiplicative''
   \<and> mean [2] \<noteq> 0 \<and> mean [3, - 3] = 0
   \<and> QuantileMapping_apply_location (location_QuantileMapping ''multiplicative'')
        [5] [2] [3, - 3] = Inl DivideByZero"
proof -
  have m: "detrending (location_QuantileMapping ''multiplicative'') = ''multiplicative''"
    by (simp add: location_QuantileMapping_def)
  have means: "mean [2] \<noteq> 0" "mean [3, - 3] = 0"
    by (simp_all add: mean_def)
  have "QuantileMapping_apply_location (location_QuantileMapping ''multiplicative'')
          [5] [2] [3, - 3] = Inl DivideByZero"
    using QuantileMapping_multiplicative_needs_both_means
      [OF m, where obs = "[5]" and cm_hist = "[2]" and cm_future = "[3, - 3]"]
    by (simp add: means)
  with m means show ?thesis by simp
qed

subsection \<open>Construction\<close>

text \<open>
  Claim C7. The constructor of QuantileMapping raises for a \<open>detrending\<close> outside
  \<open>additive\<close>, \<open>multiplicative\<close>, \<open>no_detrending\<close>, and the constructor of ECDFM
  raises for a \<open>running_window_length\<close> or \<open>running_window_step_length\<close> that is not
  a positive integer, whatever the other arguments: no debiaser is returned on which
  \<open>apply_location\<close> could be called.
\<close>

theorem construction_rejects_invalid_configuration:
  "(detrending_arg \<notin> {PyStr ''additive'', PyStr ''multiplicative'', PyStr ''no_detrending''}
      \<longrightarrow> isl (QuantileMapping_init d (Some detrending_arg)))
   \<and> (\<not> positive_int length_arg
      \<longrightarrow> isl (ECDFM_init u d' threshold mode (Some length_arg) step))
   \<and> (\<not> positive_int step_arg
      \<longrightarrow> isl (ECDFM_init u d' threshold mode len (Some step_arg)))"
proof (intro conjI impI)
  assume "detrending_arg \<notin> {PyStr ''additive'', PyStr ''multiplicative'', PyStr ''no_detrending''}"
  then show "isl (QuantileMapping_init d (Some detrending_arg))"
    by (cases d; cases detrending_arg) (auto simp: QuantileMapping_init_def default_def)
next
  assume "\<not> positive_int length_arg"
  then show "isl (ECDFM_init u d' threshold mode (Some length_arg) step)"
    by (auto simp: ECDFM_init_def default_def positive_int_def
        split: pyval.splits option.splits)
next
  assume "\<not> positive_int step_arg"
  then show "isl (ECDFM_init u d' threshold mode len (Some step_arg))"
    by (auto simp: ECDFM_init_def default_def positive_int_def
        split: pyval.splits option.splits)
qed

theorem construction_rejects_invalid_configuration_witness:
  "PyStr ''linear'' \<notin> {PyStr ''additive'', PyStr ''multiplicative'', PyStr ''no_detrending''}
   \<and> QuantileMapping_init (PyModel location_model) (Some (PyStr ''linear'')) = Inl ValueError
   \<and> \<not> positive_int (PyInt 0)
   \<and> ECDFM_init day_utils (PyModel location_model) None None (Some (PyInt 0)) None
       = Inl ValueError
   \<and> \<not> positive_int (PyFloat (7 / 2))
   \<and> ECDFM_init day_utils (PyModel location_model) None None None (Some (PyFloat (7 / 2)))
       = Inl TypeError"
proof -
  have a: "PyStr ''linear''
             \<notin> {PyStr ''additive'', PyStr ''multiplicative'', PyStr ''no_detrending''}"
    by simp
  have b: "\<not> positive_int (PyInt 0)"
    by (simp add: positive_int_def)
  have c: "\<not> positive_int (PyFloat (7 / 2))"
    by (simp add: positive_int_def)
  note t = construction_rejects_invalid_configuration
    [where detrending_arg = "PyStr ''linear''" and d = "PyModel location_model"
       and length_arg = "PyInt 0" and u = day_utils and d' = "PyModel location_model"
       and threshold = None and mode = None and step = None
       and step_arg = "PyFloat (7 / 2)" and len = None]
  have "QuantileMapping_init (PyModel location_model) (Some (PyStr ''linear'')) = Inl ValueError"
    using t a by (simp add: QuantileMapping_init_def default_def)
  moreover have
    "ECDFM_init day_utils (PyModel location_model) None None (Some (PyInt 0)) None
       = Inl ValueError"
    using t b by (simp add: ECDFM_init_def default_def)
  moreover have
    "ECDFM_init day_utils (PyModel location_model) None None None (Some (PyFloat (7 / 2)))
       = Inl TypeError"
    using t c by (simp add: ECDFM_init_def default_def)
  ultimately show ?thesis
    using a b c by simp
qed

text \<open>
  Claim C8, amended. The configuration parameter \<open>cdf_threshold\<close> of ECDFM is a float:
  constructing an ECDFM debiaser with a \<open>cdf_threshold\<close> that is not a float is a
  configuration error (a TypeError) raised eagerly at construction, and every float,
  inside or outside \<open>(0, 0.5)\<close>, is accepted: whether the constructor raises does not
  depend on the value of the float.
\<close>

theorem ECDFM_cdf_threshold_float_only:
  "ECDFM_init u (PyModel d) (Some (PyFloat t)) None None None =
     Inr \<lparr>distribution = d, cdf_threshold = t, running_window_mode = True,
          running_window_length = 31, running_window_step_length = 31,
          running_window = Some (RunningWindowOverDaysOfYear u 31 31)\<rparr>
   \<and> (isl (ECDFM_init u d' (Some (PyFloat t)) mode len step)
        \<longleftrightarrow> isl (ECDFM_init u d' (Some (PyFloat t')) mode len step))
   \<and> ((\<forall>t. v \<noteq> PyFloat t) \<longrightarrow>
        ECDFM_init u (PyModel d) (Some v) mode len step = Inl TypeError)"
proof (intro conjI impI)
  show "ECDFM_init u (PyModel d) (Some (PyFloat t)) None None None =
     Inr \<lparr>distribution = d, cdf_threshold = t, running_window_mode = True,
          running_window_length = 31, running_window_step_length = 31,
          running_window = Some (RunningWindowOverDaysOfYear u 31 31)\<rparr>"
    by (simp add: ECDFM_init_def default_def attrs_post_init_def)
next
  show "isl (ECDFM_init u d' (Some (PyFloat t)) mode len step)
          \<longleftrightarrow> isl (ECDFM_init u d' (Some (PyFloat t')) mode len step)"
    by (simp add: ECDFM_init_def default_def split: pyval.splits option.splits)
next
  assume "\<forall>t. v \<noteq> PyFloat t"
  then show "ECDFM_init u (PyModel d) (Some v) mode len step = Inl TypeError"
    by (cases v) (auto simp: ECDFM_init_def default_def)
qed

theorem ECDFM_cdf_threshold_float_only_witness:
  "(\<forall>t. (PyInt 0 :: real pyval) \<noteq> PyFloat t)
   \<and> ECDFM_init day_utils (PyModel location_model) (Some (PyInt 0)) None None None
       = Inl TypeError
   \<and> ECDFM_init day_utils (PyModel location_model) (Some (PyFloat (1 / 4))) None None None =
       Inr \<lparr>distribution = location_model, cdf_threshold = 1 / 4, running_window_mode = True,
            running_window_length = 31, running_window_step_length = 31,
            running_window = Some (RunningWindowOverDaysOfYear day_utils 31 31)\<rparr>"
proof -
  have a: "\<forall>t. (PyInt 0 :: real pyval) \<noteq> PyFloat t"
    by simp
  note t = ECDFM_cdf_threshold_float_only
    [where u = day_utils and d = location_model and t = "1 / 4" and v = "PyInt 0"
       and mode = None and len = None and step = None]
  from t a show ?thesis by simp
qed

text \<open>
  A float outside \<open>(0, 0.5)\<close> does not raise: the validator of \<open>cdf_threshold\<close> is
  \<open>instance_of(float)\<close> alone, and \<open>0.7\<close> and \<open>-0.1\<close> are both accepted.
\<close>

theorem ECDFM_cdf_threshold_outside_accepted:
  "ECDFM_init day_utils (PyModel location_model) (Some (PyFloat (7 / 10))) None None None =
     Inr \<lparr>distribution = location_model, cdf_threshold = 7 / 10, running_window_mode = True,
          running_window_length = 31, running_window_step_length = 31,
          running_window = Some (RunningWindowOverDaysOfYear day_utils 31 31)\<rparr>
   \<and> ECDFM_init day_utils (PyModel location_model) (Some (PyFloat (- 1 / 10))) None None None =
     Inr \<lparr>distribution = location_model, cdf_threshold = - 1 / 10, running_window_mode = True,
          running_window_length = 31, running_window_step_length = 31,
          running_window = Some (RunningWindowOverDaysOfYear day_utils 31 31)\<rparr>"
  by (simp add: ECDFM_init_def default_def attrs_post_init_def)

subsection \<open>ECDFM without the running window\<close>

text \<open>
  Claim C10. With \<open>running_window_mode\<close> off, \<open>apply_location\<close> of ECDFM ignores the
  time arguments: whatever is passed for them, \<open>None\<close> or arrays of any length, it
  returns the result of the per-window core on the three whole series and emits no
  warning, so no two choices of the time arguments give different results and no length
  of a time array is checked.
\<close>

theorem ECDFM_no_window_ignores_time:
  assumes "\<not> running_window_mode self"
  shows "ECDFM_apply_location u self obs cm_hist cm_future time_obs time_cm_hist time_cm_future
           = ([], apply_on_within_year_window self obs cm_hist cm_future)
         \<and> ECDFM_apply_location u self obs cm_hist cm_future time_obs time_cm_hist
             time_cm_future
           = ECDFM_apply_location u' self obs cm_hist cm_future time_obs' time_cm_hist'
               time_cm_future'"
  using assms by (simp add: ECDFM_apply_location_def)

theorem ECDFM_no_window_ignores_time_witness:
  "\<not> running_window_mode location_ECDFM
   \<and> ECDFM_apply_location day_utils location_ECDFM [1, 3] [- 3, 3] [- 3, 3]
        None None None = ([], Inr [- 1, 5])
   \<and> ECDFM_apply_location day_utils location_ECDFM [1, 3] [- 3, 3] [- 3, 3]
        (Some [1]) (Some []) (Some [1, 2, 3]) = ([], Inr [- 1, 5])"
proof -
  have off: "\<not> running_window_mode location_ECDFM"
    by (simp add: location_ECDFM_def)
  have val: "apply_on_within_year_window location_ECDFM [1, 3] [- 3, 3] [- 3, 3] = Inr [- 1, 5]"
    by (simp add: apply_on_within_year_window_def location_ECDFM_def Let_def location_model_def
        np_add_def np_sub_def np_broadcast_def threshold_cdf_vals_def location_cdf_def
        location_ppf_def)
  note t = ECDFM_no_window_ignores_time
    [OF off, where u = day_utils and obs = "[1, 3]" and cm_hist = "[- 3, 3]"
       and cm_future = "[- 3, 3]" and time_obs = None and time_cm_hist = None
       and time_cm_future = None and u' = day_utils and time_obs' = "Some [1]"
       and time_cm_hist' = "Some []" and time_cm_future' = "Some [1, 2, 3]"]
  note none = t [THEN conjunct1] and same = t [THEN conjunct2, symmetric]
  have "ECDFM_apply_location day_utils location_ECDFM [1, 3] [- 3, 3] [- 3, 3]
          None None None = ([], Inr [- 1, 5])"
    by (simp only: none val)
  moreover have "ECDFM_apply_location day_utils location_ECDFM [1, 3] [- 3, 3] [- 3, 3]
          (Some [1]) (Some []) (Some [1, 2, 3]) = ([], Inr [- 1, 5])"
    by (simp only: same none val)
  ultimately show ?thesis
    using off by simp
qed

subsection \<open>The shape of the result\<close>

lemma length_fold_update_pairs:
  "length (fold (\<lambda>(i, v) a. a[i := v]) zs xs) = length xs"
  by (induction zs arbitrary: xs) auto

lemma length_fold_update:
  "length (fold (\<lambda>i a. a[i := w]) idx xs) = length xs"
  by (induction idx arbitrary: xs) auto

lemma np_put_length:
  "np_put xs idx vals = Inr ys \<Longrightarrow> length ys = length xs"
  by (auto simp: np_put_def length_fold_update_pairs length_fold_update split: if_splits)

lemma np_put_returns:
  assumes "\<forall>i \<in> set idx. i < length xs" and "length vals = length idx"
  shows "\<exists>ys. np_put xs idx vals = Inr ys"
  using assms by (simp add: np_put_def)

lemma length_compress:
  "length ms = length xs \<Longrightarrow>
     length (map fst (filter snd (zip xs ms))) = length (filter id ms)"
  by (induction xs ms rule: list_induct2') auto

lemma window_step_length:
  assumes "window_step u self rw obs cm_hist cm_future d_obs d_hist d_fut p deb = Inr deb'"
  shows "length deb' = length deb"
  using assms
  by (auto simp: window_step_def Let_def and_then_def np_put_length
      split: prod.splits sum.splits)

lemma window_step_returns:
  assumes sp: "shape_preserving (distribution self)"
    and v: "valid_window u rw obs cm_hist cm_future d_obs d_hist d_fut p"
    and len: "length deb = length cm_future"
  shows "\<exists>deb'. window_step u self rw obs cm_hist cm_future d_obs d_hist d_fut p deb = Inr deb'"
proof -
  obtain c targets where p: "p = (c, targets)" by (cases p)
  let ?iw = "get_indices_vals_in_window rw d_fut c"
  let ?unique = "get_mask_for_unique_subarray u ?iw"
  let ?msk = "map2 (\<and>) (np_in1d ?iw targets) ?unique"
  from v p have io: "\<forall>i \<in> set (get_indices_vals_in_window rw d_obs c). i < length obs"
    and ih: "\<forall>i \<in> set (get_indices_vals_in_window rw d_hist c). i < length cm_hist"
    and ifu: "\<forall>i \<in> set ?iw. i < length cm_future"
    and it: "\<forall>i \<in> set targets. i < length cm_future"
    and lu: "length ?unique = length ?iw"
    and cnt: "length (filter id ?msk) = length targets"
    by (simp_all add: valid_window_def Let_def)
  obtain res where res:
    "apply_on_within_year_window self
       (map (\<lambda>i. obs ! i) (get_indices_vals_in_window rw d_obs c))
       (map (\<lambda>i. cm_hist ! i) (get_indices_vals_in_window rw d_hist c))
       (map (\<lambda>i. cm_future ! i) ?iw) = Inr res"
    and lres: "length res = length ?iw"
    using apply_on_within_year_window_length [OF sp] by (metis length_map)
  have land: "np_logical_and (np_in1d ?iw targets) ?unique = Inr ?msk"
    using lu by (simp add: np_logical_and_def np_broadcast_same_length np_in1d_def)
  have lmsk: "length ?msk = length res"
    using lu lres by (simp add: np_in1d_def)
  have comp: "np_compress res ?msk = Inr (map fst (filter snd (zip res ?msk)))"
    using lmsk by (simp add: np_compress_def)
  have lvals: "length (map fst (filter snd (zip res ?msk))) = length targets"
    using length_compress [OF lmsk] cnt by simp
  obtain deb' where "np_put deb targets (map fst (filter snd (zip res ?msk))) = Inr deb'"
    using np_put_returns [of targets deb, OF _ lvals] it len by auto
  then show ?thesis
    using io ih ifu res land comp
    by (simp add: window_step_def p Let_def np_take_def)
qed

lemma window_loop_returns:
  assumes sp: "shape_preserving (distribution self)"
  shows "\<forall>p \<in> set ps. valid_window u rw obs cm_hist cm_future d_obs d_hist d_fut p
     \<Longrightarrow> length deb = length cm_future
     \<Longrightarrow> \<exists>deb'. window_loop u self rw obs cm_hist cm_future d_obs d_hist d_fut ps deb
            = Inr deb' \<and> length deb' = length cm_future"
proof (induction ps arbitrary: deb)
  case Nil
  then show ?case by simp
next
  case (Cons p ps)
  from Cons.prems obtain d1 where
    d1: "window_step u self rw obs cm_hist cm_future d_obs d_hist d_fut p deb = Inr d1"
    using window_step_returns [OF sp] by (metis list.set_intros(1))
  then have "length d1 = length cm_future"
    using window_step_length Cons.prems(2) by metis
  with Cons.IH [of d1] Cons.prems(1) d1 show ?case
    by simp
qed

lemma QuantileMapping_apply_location_shape:
  assumes "shape_preserving (distribution self)"
    and "valid_QuantileMapping_input self cm_hist cm_future"
  shows "\<exists>ys. QuantileMapping_apply_location self obs cm_hist cm_future = Inr ys
           \<and> length ys = length cm_future"
  using assms
  by (auto simp: valid_QuantileMapping_input_def QuantileMapping_apply_location_def Let_def
      np_mean_eq np_div_def np_div_scalar_def standard_qm_def shape_preservingD)

lemma ECDFM_apply_location_shape:
  assumes sp: "shape_preserving (distribution self)"
    and v: "valid_ECDFM_input u self obs cm_hist cm_future time_obs time_cm_hist time_cm_future"
  shows "\<exists>ys. snd (ECDFM_apply_location u self obs cm_hist cm_future
                     time_obs time_cm_hist time_cm_future) = Inr ys
           \<and> length ys = length cm_future"
proof (cases "running_window_mode self")
  case False
  then show ?thesis
    using apply_on_within_year_window_length [OF sp]
    by (simp add: ECDFM_apply_location_def)
next
  case True
  obtain t_obs t_hist t_fut where ts:
    "time_arrays u obs cm_hist cm_future time_obs time_cm_hist time_cm_future
       = (t_obs, t_hist, t_fut)"
    by (cases "time_arrays u obs cm_hist cm_future time_obs time_cm_hist time_cm_future")
  from v True ts obtain rw where
    lens: "length obs = length t_obs" "length cm_hist = length t_hist"
      "length cm_future = length t_fut"
    and rw: "running_window self = Some rw"
    and ws: "\<forall>p \<in> set (use rw (day_of_year u t_fut) (year u t_fut)).
               valid_window u rw obs cm_hist cm_future (day_of_year u t_obs)
                 (day_of_year u t_hist) (day_of_year u t_fut) p"
    by (auto simp: valid_ECDFM_input_def split: option.splits)
  have "length (np_empty_like u cm_future) = length cm_future"
    by (simp add: np_empty_like_def)
  from window_loop_returns [OF sp ws this] True ts lens rw show ?thesis
    by (simp add: ECDFM_apply_location_def check_time_information_and_raise_error_def Let_def)
qed

text \<open>
  Claim C6. For valid inputs, \<open>apply_location\<close> of either debiaser returns an array as
  long as \<open>cm_future\<close>: quantile mapping in each of its three detrending modes, and
  ECDFM with the running window off and on. Valid: the model keeps the shape of its
  argument; for quantile mapping the means that the detrending divides or subtracts are
  numbers and not zero where they divide; for ECDFM with the running window on the time
  arrays are as long as their series and the windows fit the series.
\<close>

theorem apply_location_shape:
  "(shape_preserving (distribution qm) \<and> valid_QuantileMapping_input qm cm_hist cm_future
      \<longrightarrow> (\<exists>ys. QuantileMapping_apply_location qm obs cm_hist cm_future = Inr ys
               \<and> length ys = length cm_future))
   \<and> (shape_preserving (distribution ecdfm)
       \<and> valid_ECDFM_input u ecdfm obs' cm_hist' cm_future' time_obs time_cm_hist
           time_cm_future
      \<longrightarrow> (\<exists>ys. snd (ECDFM_apply_location u ecdfm obs' cm_hist' cm_future' time_obs
                         time_cm_hist time_cm_future) = Inr ys
               \<and> length ys = length cm_future'))"
  using QuantileMapping_apply_location_shape ECDFM_apply_location_shape by blast

theorem apply_location_shape_witness:
  "shape_preserving location_model
   \<and> valid_QuantileMapping_input (location_QuantileMapping ''additive'') [1, 2] [2, 4]
   \<and> QuantileMapping_apply_location (location_QuantileMapping ''additive'') [5, 7] [1, 2] [2, 4]
       = Inr [13 / 2, 17 / 2]
   \<and> valid_QuantileMapping_input (location_QuantileMapping ''multiplicative'') [1] [2, 4]
   \<and> QuantileMapping_apply_location (location_QuantileMapping ''multiplicative'') [5] [1] [2, 4]
       = Inr [14, 16]
   \<and> valid_QuantileMapping_input (location_QuantileMapping ''no_detrending'') [1] [2, 4]
   \<and> QuantileMapping_apply_location (location_QuantileMapping ''no_detrending'') [5] [1] [2, 4]
       = Inr [6, 8]
   \<and> valid_ECDFM_input day_utils location_ECDFM [1, 3] [- 3, 3] [- 3, 3] None None None
   \<and> snd (ECDFM_apply_location day_utils location_ECDFM [1, 3] [- 3, 3] [- 3, 3]
            None None None) = Inr [- 1, 5]
   \<and> valid_ECDFM_input day_utils day_window_ECDFM [1, 3, 2] [- 3, 3, 0] [- 3, 3]
        (Some [1, 2, 3]) (Some [1, 2, 3]) (Some [1, 2])
   \<and> snd (ECDFM_apply_location day_utils day_window_ECDFM [1, 3, 2] [- 3, 3, 0] [- 3, 3]
            (Some [1, 2, 3]) (Some [1, 2, 3]) (Some [1, 2])) = Inr [- 1, 5]"
proof -
  have sp: "shape_preserving location_model"
    by (rule location_model_shape)
  have spq: "shape_preserving (distribution (location_QuantileMapping mode))" for mode
    by (simp add: location_QuantileMapping_def sp)
  have spe: "shape_preserving (distribution location_ECDFM)"
    "shape_preserving (distribution day_window_ECDFM)"
    by (simp_all add: location_ECDFM_def day_window_ECDFM_def sp)
  have va: "valid_QuantileMapping_input (location_QuantileMapping ''additive'') [1, 2] [2, 4]"
    by (simp add: valid_QuantileMapping_input_def location_QuantileMapping_def)
  have vm: "valid_QuantileMapping_input (location_QuantileMapping ''multiplicative'') [1] [2, 4]"
    by (simp add: valid_QuantileMapping_input_def location_QuantileMapping_def mean_def)
  have vn: "valid_QuantileMapping_input (location_QuantileMapping ''no_detrending'') [1] [2, 4]"
    by (simp add: valid_QuantileMapping_input_def location_QuantileMapping_def)
  have ve: "valid_ECDFM_input day_utils location_ECDFM [1, 3] [- 3, 3] [- 3, 3] None None None"
    by (simp add: valid_ECDFM_input_def location_ECDFM_def)
  have vw: "valid_ECDFM_input day_utils day_window_ECDFM [1, 3, 2] [- 3, 3, 0] [- 3, 3]
              (Some [1, 2, 3]) (Some [1, 2, 3]) (Some [1, 2])"
    by code_simp
  note q = apply_location_shape [THEN conjunct1, rule_format, OF conjI]
    and e = apply_location_shape [THEN conjunct2, rule_format, OF conjI]
  note shapes = q [OF spq va, where obs = "[5, 7]"] q [OF spq vm, where obs = "[5]"]
    q [OF spq vn, where obs = "[5]"] e [OF spe(1) ve] e [OF spe(2) vw]
  have ra: "QuantileMapping_apply_location (location_QuantileMapping ''additive'')
              [5, 7] [1, 2] [2, 4] = Inr [13 / 2, 17 / 2]"
    by code_simp
  have rm: "QuantileMapping_apply_location (location_QuantileMapping ''multiplicative'')
              [5] [1] [2, 4] = Inr [14, 16]"
    by code_simp
  have rn: "QuantileMapping_apply_location (location_QuantileMapping ''no_detrending'')
              [5] [1] [2, 4] = Inr [6, 8]"
    by code_simp
  have re: "snd (ECDFM_apply_location day_utils location_ECDFM [1, 3] [- 3, 3] [- 3, 3]
                   None None None) = Inr [- 1, 5]"
    by code_simp
  have rw: "snd (ECDFM_apply_location day_utils day_window_ECDFM [1, 3, 2] [- 3, 3, 0]
                   [- 3, 3] (Some [1, 2, 3]) (Some [1, 2, 3]) (Some [1, 2])) = Inr [- 1, 5]"
    by code_simp
  from shapes sp va vm vn ve vw ra rm rn re rw show ?thesis
    by simp
qed

end
